theory Spec2Isabelle
  imports Complex_Main
begin

section \<open>The fitness tracker of homework.py\<close>

text \<open>
  The module computes distance, mean speed and spent calories of a workout from sensor
  readings and renders a one-line report. It has a dataclass \<open>InfoMessage\<close>, a base
  class \<open>Training\<close> with the subclasses \<open>Running\<close>, \<open>SportsWalking\<close> and
  \<open>Swimming\<close>, the dispatcher \<open>read_package\<close> and the glue \<open>main\<close>.

  Conventions of the embedding:
  \<^item> A number that a workout holds or computes is a \<open>real\<close>, and the arithmetic is
    the exact one: the rounding of binary floating point is outside the model. Every
    formula keeps the source's order of operations.
  \<^item> Two operations of the module can raise. \<open>/\<close> raises ZeroDivisionError on a
    zero divisor, and \<open>**\<close> raises OverflowError when a finite base has a power
    beyond the range of a double. Both are values of the model, with the bounds of
    binary64 applied to the exact values: a computed divisor is zero also when it
    underflows, and a computed value is infinite when it is beyond the range.
  \<^item> A Python \<open>str\<close> is the \<open>string\<close> of its UTF-8 bytes, so the Cyrillic literals
    are byte lists; concatenation and equality are those of the text.
  \<^item> A method takes the object and returns its outcome together with the object as the
    call leaves it, so that what a call does to the fields is part of the model.
  \<^item> A function that returns Python's \<open>None\<close> where a number is expected returns
    \<open>real option\<close>.
  \<^item> A numeric field of a summary is a Python float of any kind, \<open>pyfloat\<close>: a finite
    number, the negative zero, an infinity or NaN, which the rendering tells apart.
    \<open>show_training_info\<close> stores the exact values it computed as finite numbers.
\<close>

subsection \<open>Errors and values\<close>

datatype error =
    KeyError string
  | TypeError
  | ZeroDivisionError
  | OverflowError

type_synonym 'a outcome = "error + 'a"

definition truediv :: "real \<Rightarrow> real \<Rightarrow> real outcome" where
  "truediv x y = (if y = 0 then Inl ZeroDivisionError else Inr (x / y))"

text \<open>
  The range of a double. The largest double is \<open>2^1024 - 2^971\<close>; a magnitude from
  \<open>2^1024 - 2^970\<close> on, half a step above it, is rounded to an infinity. The
  smallest positive double is \<open>1 / 2^1074\<close>; a magnitude up to half of it is rounded
  to zero.
\<close>

definition float_overflow :: real where
  "float_overflow = 2 ^ 1024 - 2 ^ 970"

definition float_underflow :: real where
  "float_underflow = 1 / 2 ^ 1075"

definition is_infinite :: "real \<Rightarrow> bool" where
  "is_infinite x = (float_overflow \<le> \<bar>x\<bar>)"

text \<open>A computed float whose exact value is \<open>x\<close>: zero when \<open>x\<close> underflows.\<close>

definition flush :: "real \<Rightarrow> real" where
  "flush x = (if \<bar>x\<bar> \<le> float_underflow then 0 else x)"

text \<open>
  \<open>x ** 2\<close> on a float. The power of an infinite base is infinite and nothing is
  raised; a finite base whose square is beyond the range raises OverflowError. A square
  that underflows raises nothing.
\<close>

definition pow2 :: "bool \<Rightarrow> real \<Rightarrow> real outcome" where
  "pow2 infinite_base x =
     (if infinite_base then Inr (x\<^sup>2)
      else if is_infinite (x\<^sup>2) then Inl OverflowError
      else Inr (x\<^sup>2))"

subsection \<open>InfoMessage\<close>

text \<open>
  The values of Python's \<open>float\<close>. \<open>Finite 0\<close> is the positive zero.
\<close>

datatype pyfloat =
    Finite real
  | NegZero
  | PosInf
  | NegInf
  | NaN

text \<open>
  The dataclass of lines 5-23. Its field \<open>duration\<close> is \<open>msg_duration\<close> here, the
  name \<open>duration\<close> being the attribute of the workout classes. Python does not enforce
  the annotation \<open>float\<close>: \<open>show_training_info\<close> stores whatever
  \<open>get_spent_calories\<close> returned, which for the base class is \<open>None\<close>.
\<close>

record InfoMessage =
  training_type :: string
  msg_duration :: pyfloat
  distance :: pyfloat
  speed :: pyfloat
  calories :: "pyfloat option"

text \<open>
  The format specification \<open>.3f\<close> on a finite number: the value rounded to the
  nearest multiple of 1/1000, ties to even, written as an optional minus sign, the
  integer part without leading zeros, a point and three digits. The sign is that of the value itself, so a
  negative value that rounds to zero is rendered \<open>-0.000\<close>. \<open>digit_char\<close> is
  applied to numbers below ten only.
\<close>

definition digit_char :: "nat \<Rightarrow> char" where
  "digit_char d = ''0123456789'' ! d"

fun decimal :: "nat \<Rightarrow> string" where
  "decimal n = (if n < 10 then [digit_char n] else decimal (n div 10) @ [digit_char (n mod 10)])"

declare decimal.simps [simp del]

definition round_half_even :: "real \<Rightarrow> int" where
  "round_half_even x =
     (let f = \<lfloor>x\<rfloor>; r = x - of_int f
      in if r < 1 / 2 then f
         else if 1 / 2 < r then f + 1
         else if even f then f else f + 1)"

definition format_3f :: "real \<Rightarrow> string" where
  "format_3f x =
     (let n = nat (round_half_even (\<bar>x\<bar> * 1000))
      in (if x < 0 then ''-'' else '''')
         @ decimal (n div 1000) @ ''.''
         @ [digit_char (n div 100 mod 10), digit_char (n div 10 mod 10), digit_char (n mod 10)])"

text \<open>
  The format specification \<open>.3f\<close> on any float: an infinity and NaN are rendered by
  name, without digits.
\<close>

fun format_float :: "pyfloat \<Rightarrow> string" where
  "format_float (Finite x) = format_3f x"
| "format_float NegZero = ''-0.000''"
| "format_float PosInf = ''inf''"
| "format_float NegInf = ''-inf''"
| "format_float NaN = ''nan''"

fun is_finite :: "pyfloat \<Rightarrow> bool" where
  "is_finite (Finite x) = True"
| "is_finite NegZero = True"
| "is_finite PosInf = False"
| "is_finite NegInf = False"
| "is_finite NaN = False"

text \<open>The number that a finite float is; the other floats are no number.\<close>

fun float_value :: "pyfloat \<Rightarrow> real" where
  "float_value (Finite x) = x"
| "float_value NegZero = 0"
| "float_value PosInf = 0"
| "float_value NegInf = 0"
| "float_value NaN = 0"

text \<open>
  What it is for a rendering to show exactly three fractional digits: the text is an
  integer part, the first point and a fraction; the integer part is an optional minus
  sign and at least one digit; the fraction is three digits.
\<close>

definition digits :: "char set" where
  "digits = set ''0123456789''"

definition fixed_3_decimals :: "string \<Rightarrow> bool" where
  "fixed_3_decimals s =
     (let int_part = takeWhile (\<lambda>c. c \<noteq> CHR ''.'') s;
          fraction = drop 1 (dropWhile (\<lambda>c. c \<noteq> CHR ''.'') s);
          unsigned = (if take 1 int_part = ''-'' then drop 1 int_part else int_part)
      in s = int_part @ ''.'' @ fraction
         \<and> unsigned \<noteq> [] \<and> set unsigned \<subseteq> digits
         \<and> length fraction = 3 \<and> set fraction \<subseteq> digits)"

text \<open>
  The number that a rendering denotes, read back from its digits, and what it is for a
  text to render a float with three fractional digits: it has that shape, and it
  denotes the thousandth nearest to the float's value.
\<close>

definition digit_value :: "char \<Rightarrow> nat" where
  "digit_value c = length (takeWhile (\<lambda>d. d \<noteq> c) ''0123456789'')"

definition read_digits :: "string \<Rightarrow> nat" where
  "read_digits s = foldl (\<lambda>n c. 10 * n + digit_value c) 0 s"

definition decimal_value :: "string \<Rightarrow> real" where
  "decimal_value s =
     (let int_part = takeWhile (\<lambda>c. c \<noteq> CHR ''.'') s;
          fraction = drop 1 (dropWhile (\<lambda>c. c \<noteq> CHR ''.'') s);
          negative = (take 1 int_part = ''-'');
          unsigned = (if negative then drop 1 int_part else int_part);
          magnitude = real (read_digits unsigned)
                      + real (read_digits fraction) / 10 ^ length fraction
      in if negative then - magnitude else magnitude)"

definition renders_3f :: "pyfloat \<Rightarrow> string \<Rightarrow> bool" where
  "renders_3f v s =
     (fixed_3_decimals s \<and> \<bar>decimal_value s - float_value v\<bar> \<le> 1 / 2000)"

text \<open>
  The literal parts of the report, as UTF-8 bytes. In Latin transliteration they read
  \<open>Tip trenirovki: \<close>, \<open>; Dlitel'nost': \<close>, \<open> ch.; Distantsiya: \<close>,
  \<open> km; Sr. skorost': \<close>, \<open> km/ch; Potracheno kkal: \<close> and \<open>.\<close>.
\<close>

definition msg_type :: string where
  "msg_type = map char_of
     [0xD0, 0xA2, 0xD0, 0xB8, 0xD0, 0xBF, 0x20, 0xD1, 0x82, 0xD1, 0x80, 0xD0, 0xB5, 0xD0,
      0xBD, 0xD0, 0xB8, 0xD1, 0x80, 0xD0, 0xBE, 0xD0, 0xB2, 0xD0, 0xBA, 0xD0, 0xB8, 0x3A,
      0x20 :: nat]"

definition msg_duration_part :: string where
  "msg_duration_part = map char_of
     [0x3B, 0x20, 0xD0, 0x94, 0xD0, 0xBB, 0xD0, 0xB8, 0xD1, 0x82, 0xD0, 0xB5, 0xD0, 0xBB,
      0xD1, 0x8C, 0xD0, 0xBD, 0xD0, 0xBE, 0xD1, 0x81, 0xD1, 0x82, 0xD1, 0x8C, 0x3A,
      0x20 :: nat]"

definition msg_distance_part :: string where
  "msg_distance_part = map char_of
     [0x20, 0xD1, 0x87, 0x2E, 0x3B, 0x20, 0xD0, 0x94, 0xD0, 0xB8, 0xD1, 0x81, 0xD1, 0x82,
      0xD0, 0xB0, 0xD0, 0xBD, 0xD1, 0x86, 0xD0, 0xB8, 0xD1, 0x8F, 0x3A, 0x20 :: nat]"

definition msg_speed_part :: string where
  "msg_speed_part = map char_of
     [0x20, 0xD0, 0xBA, 0xD0, 0xBC, 0x3B, 0x20, 0xD0, 0xA1, 0xD1, 0x80, 0x2E, 0x20, 0xD1,
      0x81, 0xD0, 0xBA, 0xD0, 0xBE, 0xD1, 0x80, 0xD0, 0xBE, 0xD1, 0x81, 0xD1, 0x82, 0xD1,
      0x8C, 0x3A, 0x20 :: nat]"

definition msg_calories_part :: string where
  "msg_calories_part = map char_of
     [0x20, 0xD0, 0xBA, 0xD0, 0xBC, 0x2F, 0xD1, 0x87, 0x3B, 0x20, 0xD0, 0x9F, 0xD0, 0xBE,
      0xD1, 0x82, 0xD1, 0x80, 0xD0, 0xB0, 0xD1, 0x87, 0xD0, 0xB5, 0xD0, 0xBD, 0xD0, 0xBE,
      0x20, 0xD0, 0xBA, 0xD0, 0xBA, 0xD0, 0xB0, 0xD0, 0xBB, 0x3A, 0x20 :: nat]"

definition msg_end :: string where
  "msg_end = ''.''"

text \<open>
  \<open>InfoMessage.get_message\<close>, lines 14-23. Formatting \<open>None\<close> with \<open>.3f\<close> raises
  TypeError.
\<close>

definition get_message :: "InfoMessage \<Rightarrow> string outcome" where
  "get_message self =
     (case calories self of
        None \<Rightarrow> Inl TypeError
      | Some c \<Rightarrow>
          Inr (msg_type @ training_type self
               @ msg_duration_part @ format_float (msg_duration self)
               @ msg_distance_part @ format_float (distance self)
               @ msg_speed_part @ format_float (speed self)
               @ msg_calories_part @ format_float c
               @ msg_end))"

subsection \<open>The workout classes\<close>

text \<open>
  An object is its class together with its attributes: one constructor per class, with
  the attributes that the class's \<open>__init__\<close> stores. \<open>count_pool\<close> is annotated
  \<open>int\<close>, but receives an element of the data list unchanged.
\<close>

datatype training =
    Training (action: real) (duration: real) (weight: real)
  | Running (action: real) (duration: real) (weight: real)
  | SportsWalking (action: real) (duration: real) (weight: real) (height: real)
  | Swimming (action: real) (duration: real) (weight: real)
      (length_pool: real) (count_pool: real)

type_synonym 'a call = "training \<Rightarrow> 'a outcome \<times> training"

text \<open>\<open>self.__class__.__name__\<close>.\<close>

fun class_name :: "training \<Rightarrow> string" where
  "class_name (Training _ _ _) = ''Training''"
| "class_name (Running _ _ _) = ''Running''"
| "class_name (SportsWalking _ _ _ _) = ''SportsWalking''"
| "class_name (Swimming _ _ _ _ _) = ''Swimming''"

text \<open>
  Class attributes. \<open>M_IN_KM\<close> and \<open>MIN_IN_H\<close> are set in \<open>Training\<close> only;
  \<open>LEN_STEP\<close> is set in \<open>Training\<close>, again in \<open>Running\<close> and in \<open>Swimming\<close>,
  and \<open>self.LEN_STEP\<close> is the one of the object's class.
\<close>

definition M_IN_KM :: real where
  "M_IN_KM = 1000"

definition MIN_IN_H :: real where
  "MIN_IN_H = 60"

fun LEN_STEP :: "training \<Rightarrow> real" where
  "LEN_STEP (Training _ _ _) = 0.65"
| "LEN_STEP (Running _ _ _) = 0.65"
| "LEN_STEP (SportsWalking _ _ _ _) = 0.65"
| "LEN_STEP (Swimming _ _ _ _ _) = 1.38"

definition Running_CALORIES_MEAN_SPEED_MULTIPLIER :: real where
  "Running_CALORIES_MEAN_SPEED_MULTIPLIER = 18"

definition Running_CALORIES_MEAN_SPEED_SHIFT :: real where
  "Running_CALORIES_MEAN_SPEED_SHIFT = 1.79"

definition SportsWalking_CALORIES_WEIGHT_MULTIPLIER :: real where
  "SportsWalking_CALORIES_WEIGHT_MULTIPLIER = 0.035"

definition SportsWalking_CALORIES_SPEED_HEIGHT_MULTIPLIER :: real where
  "SportsWalking_CALORIES_SPEED_HEIGHT_MULTIPLIER = 0.029"

definition KMH_IN_MSEC :: real where
  "KMH_IN_MSEC = 0.278"

definition CM_IN_M :: real where
  "CM_IN_M = 100"

definition Swimming_CALORIES_MEAN_SPEED_MULTIPLIER :: real where
  "Swimming_CALORIES_MEAN_SPEED_MULTIPLIER = 18"

definition Swimming_CALORIES_MEAN_SPEED_SHIFT :: real where
  "Swimming_CALORIES_MEAN_SPEED_SHIFT = 1.1"

definition Swimming_CALORIES_WEIGHT_MULTIPLIER :: real where
  "Swimming_CALORIES_WEIGHT_MULTIPLIER = 2"

definition Swimming_CALORIES_WEIGHT_SHIFT :: real where
  "Swimming_CALORIES_WEIGHT_SHIFT = 0.029"

subsubsection \<open>get_distance\<close>

text \<open>
  \<open>Training.get_distance\<close> (lines 55-57) and its override \<open>Swimming.get_distance\<close>
  (lines 163-165). The divisor is the constant 1000, so the division cannot raise.
\<close>

definition Training_get_distance :: "real call" where
  "Training_get_distance self = (Inr (action self * LEN_STEP self / M_IN_KM), self)"

definition Swimming_get_distance :: "real call" where
  "Swimming_get_distance self = (Inr (action self * LEN_STEP self / M_IN_KM), self)"

fun get_distance :: "real call" where
  "get_distance (Swimming a d w lp cp) = Swimming_get_distance (Swimming a d w lp cp)"
| "get_distance self = Training_get_distance self"

subsubsection \<open>get_mean_speed\<close>

text \<open>
  \<open>Training.get_mean_speed\<close> (lines 59-61) calls \<open>self.get_distance()\<close>, resolved by
  the object's class, and divides by \<open>self.duration\<close>, read after the call.
  \<open>Swimming.get_mean_speed\<close> (lines 167-170) reads the pool attributes only.
\<close>

definition Training_get_mean_speed :: "real call" where
  "Training_get_mean_speed self =
     (case get_distance self of
        (Inl e, self1) \<Rightarrow> (Inl e, self1)
      | (Inr dst, self1) \<Rightarrow> (truediv dst (duration self1), self1))"

definition Swimming_get_mean_speed :: "real call" where
  "Swimming_get_mean_speed self =
     (truediv (length_pool self * count_pool self / M_IN_KM) (duration self), self)"

fun get_mean_speed :: "real call" where
  "get_mean_speed (Swimming a d w lp cp) = Swimming_get_mean_speed (Swimming a d w lp cp)"
| "get_mean_speed self = Training_get_mean_speed self"

subsubsection \<open>get_spent_calories\<close>

text \<open>
  \<open>Training.get_spent_calories\<close> (lines 63-65) has the body \<open>pass\<close>: it returns
  \<open>None\<close>.
\<close>

definition Training_get_spent_calories :: "real option call" where
  "Training_get_spent_calories self = (Inr None, self)"

text \<open>\<open>Running.get_spent_calories\<close>, lines 87-92.\<close>

definition Running_get_spent_calories :: "real option call" where
  "Running_get_spent_calories self =
     (case get_mean_speed self of
        (Inl e, self1) \<Rightarrow> (Inl e, self1)
      | (Inr mean_speed, self1) \<Rightarrow>
          (Inr (Some ((Running_CALORIES_MEAN_SPEED_MULTIPLIER * mean_speed
                       + Running_CALORIES_MEAN_SPEED_SHIFT)
                      * weight self1 / M_IN_KM
                      * duration self1 * MIN_IN_H)),
           self1))"

text \<open>
  \<open>SportsWalking.get_spent_calories\<close>, lines 120-126. \<open>self.weight\<close> is read once
  before the call of \<open>get_mean_speed\<close> and once after it. The speed in metres per
  second is the speed times a constant below one, so it is an infinite float exactly
  when the speed is; it is squared first, which can raise OverflowError. The quotient
  \<open>self.height / self.CM_IN_M\<close> is computed next and is the divisor of the square:
  it is zero for a height of zero and for a height so small that the quotient
  underflows, and the division then raises ZeroDivisionError.
\<close>

definition SportsWalking_get_spent_calories :: "real option call" where
  "SportsWalking_get_spent_calories self =
     (let weight_term = SportsWalking_CALORIES_WEIGHT_MULTIPLIER * weight self
      in case get_mean_speed self of
           (Inl e, self1) \<Rightarrow> (Inl e, self1)
         | (Inr mean_speed, self1) \<Rightarrow>
             (case pow2 (is_infinite mean_speed) (mean_speed * KMH_IN_MSEC) of
                Inl e \<Rightarrow> (Inl e, self1)
              | Inr square \<Rightarrow>
                  (case truediv square (flush (height self1 / CM_IN_M)) of
                     Inl e \<Rightarrow> (Inl e, self1)
                   | Inr q \<Rightarrow>
                       (Inr (Some ((weight_term
                                    + q * SportsWalking_CALORIES_SPEED_HEIGHT_MULTIPLIER
                                      * weight self1)
                                   * duration self1 * MIN_IN_H)),
                        self1))))"

text \<open>\<open>Swimming.get_spent_calories\<close>, lines 172-177.\<close>

definition Swimming_get_spent_calories :: "real option call" where
  "Swimming_get_spent_calories self =
     (case get_mean_speed self of
        (Inl e, self1) \<Rightarrow> (Inl e, self1)
      | (Inr mean_speed, self1) \<Rightarrow>
          (Inr (Some ((mean_speed + Swimming_CALORIES_MEAN_SPEED_SHIFT)
                      * Swimming_CALORIES_WEIGHT_MULTIPLIER
                      * weight self1 * duration self1)),
           self1))"

fun get_spent_calories :: "real option call" where
  "get_spent_calories (Training a d w) = Training_get_spent_calories (Training a d w)"
| "get_spent_calories (Running a d w) = Running_get_spent_calories (Running a d w)"
| "get_spent_calories (SportsWalking a d w h) =
     SportsWalking_get_spent_calories (SportsWalking a d w h)"
| "get_spent_calories (Swimming a d w lp cp) =
     Swimming_get_spent_calories (Swimming a d w lp cp)"

subsubsection \<open>show_training_info\<close>

text \<open>
  \<open>Training.show_training_info\<close> (lines 67-74), inherited by every class. The
  arguments are evaluated from left to right: the class name and the duration are read
  first, then the three methods run in turn, and the first error ends the call.
\<close>

definition show_training_info :: "InfoMessage call" where
  "show_training_info self =
     (let name = class_name self; dur = duration self
      in case get_distance self of
           (Inl e, self1) \<Rightarrow> (Inl e, self1)
         | (Inr dst, self1) \<Rightarrow>
             (case get_mean_speed self1 of
                (Inl e, self2) \<Rightarrow> (Inl e, self2)
              | (Inr sp, self2) \<Rightarrow>
                  (case get_spent_calories self2 of
                     (Inl e, self3) \<Rightarrow> (Inl e, self3)
                   | (Inr cal, self3) \<Rightarrow>
                       (Inr \<lparr>training_type = name, msg_duration = Finite dur,
                             distance = Finite dst, speed = Finite sp,
                             calories = map_option Finite cal\<rparr>,
                        self3))))"

subsection \<open>read_package and main\<close>

text \<open>
  Calling a class with the unpacked list runs its \<open>__init__\<close>: a list of the wrong
  length is a TypeError.
\<close>

fun new_Running :: "real list \<Rightarrow> training outcome" where
  "new_Running [a, d, w] = Inr (Running a d w)"
| "new_Running _ = Inl TypeError"

fun new_SportsWalking :: "real list \<Rightarrow> training outcome" where
  "new_SportsWalking [a, d, w, h] = Inr (SportsWalking a d w h)"
| "new_SportsWalking _ = Inl TypeError"

fun new_Swimming :: "real list \<Rightarrow> training outcome" where
  "new_Swimming [a, d, w, lp, cp] = Inr (Swimming a d w lp cp)"
| "new_Swimming _ = Inl TypeError"

text \<open>
  The message of the KeyError is the f-string of line 188: a fixed text (in Latin
  transliteration \<open>Oshibka tipa trenirovki \<close>) followed by the code.
\<close>

definition msg_unknown_type :: string where
  "msg_unknown_type = map char_of
     [0xD0, 0x9E, 0xD1, 0x88, 0xD0, 0xB8, 0xD0, 0xB1, 0xD0, 0xBA, 0xD0, 0xB0, 0x20, 0xD1,
      0x82, 0xD0, 0xB8, 0xD0, 0xBF, 0xD0, 0xB0, 0x20, 0xD1, 0x82, 0xD1, 0x80, 0xD0, 0xB5,
      0xD0, 0xBD, 0xD0, 0xB8, 0xD1, 0x80, 0xD0, 0xBE, 0xD0, 0xB2, 0xD0, 0xBA, 0xD0, 0xB8,
      0x20 :: nat]"

definition dictionary :: "string \<rightharpoonup> (real list \<Rightarrow> training outcome)" where
  "dictionary = map_of
     [(''SWM'', new_Swimming),
      (''RUN'', new_Running),
      (''WLK'', new_SportsWalking)]"

definition read_package :: "string \<Rightarrow> real list \<Rightarrow> training outcome" where
  "read_package workout_type data =
     (case dictionary workout_type of
        None \<Rightarrow> Inl (KeyError (msg_unknown_type @ workout_type))
      | Some cls \<Rightarrow> cls data)"

text \<open>\<open>main\<close> (lines 192-195); its outcome is the line it prints.\<close>

definition main :: "training \<Rightarrow> string outcome" where
  "main training =
     (case show_training_info training of
        (Inl e, _) \<Rightarrow> Inl e
      | (Inr info, _) \<Rightarrow> get_message info)"

section \<open>Properties\<close>

subsection \<open>Calls leave the object as it is\<close>

lemma get_distance_frame: "snd (get_distance self) = self"
  by (cases self) (simp_all add: Training_get_distance_def Swimming_get_distance_def)

lemma get_mean_speed_frame: "snd (get_mean_speed self) = self"
  by (cases self)
    (simp_all add: Training_get_mean_speed_def Swimming_get_mean_speed_def
      Training_get_distance_def)

lemma get_spent_calories_frame: "snd (get_spent_calories self) = self"
  by (cases self)
    (simp_all add: Training_get_spent_calories_def Running_get_spent_calories_def
      SportsWalking_get_spent_calories_def Swimming_get_spent_calories_def
      Training_get_mean_speed_def Swimming_get_mean_speed_def
      Training_get_distance_def truediv_def pow2_def Let_def)

lemma show_training_info_frame: "snd (show_training_info self) = self"
proof -
  obtain r1 where r1: "get_distance self = (r1, self)"
    using get_distance_frame [of self] by (cases "get_distance self") simp
  obtain r2 where r2: "get_mean_speed self = (r2, self)"
    using get_mean_speed_frame [of self] by (cases "get_mean_speed self") simp
  obtain r3 where r3: "get_spent_calories self = (r3, self)"
    using get_spent_calories_frame [of self] by (cases "get_spent_calories self") simp
  show ?thesis
    by (simp add: show_training_info_def Let_def r1 r2 r3 split: sum.split)
qed

text \<open>
  C10. For a workout of any class, each of \<open>get_distance\<close>, \<open>get_mean_speed\<close>,
  \<open>get_spent_calories\<close> and \<open>show_training_info\<close> leaves the object with the class
  and the attributes it had before the call, whether the call returns or raises.
\<close>

theorem methods_leave_fields_unchanged:
  "snd (get_distance self) = self
   \<and> snd (get_mean_speed self) = self
   \<and> snd (get_spent_calories self) = self
   \<and> snd (show_training_info self) = self"
  by (simp add: get_distance_frame get_mean_speed_frame get_spent_calories_frame
      show_training_info_frame)

subsection \<open>The base class\<close>

text \<open>
  C1, as the code has it. \<open>get_spent_calories\<close> on an object of the base class
  \<open>Training\<close> raises nothing: for every action, duration and weight it returns
  \<open>None\<close> and leaves the object unchanged.
\<close>

theorem base_get_spent_calories_returns_None:
  "get_spent_calories (Training a d w) = (Inr None, Training a d w)"
  by (simp add: Training_get_spent_calories_def)

text \<open>
  C1 as stated asks for an error. At action 9000, duration 1 and weight 75 the call
  does not end in one.
\<close>

theorem base_get_spent_calories_no_fault:
  "\<not> isl (fst (get_spent_calories (Training 9000 1 75)))"
  by (simp add: Training_get_spent_calories_def)

text \<open>
  What becomes of the \<open>None\<close>: the summary of a base object with a non-zero duration
  carries it as its calories, and rendering that summary is a TypeError.
\<close>

lemma base_show_training_info:
  "d \<noteq> 0 \<Longrightarrow>
   fst (show_training_info (Training a d w)) =
     Inr \<lparr>training_type = ''Training'', msg_duration = Finite d,
          distance = Finite (a * 0.65 / 1000), speed = Finite (a * 0.65 / 1000 / d),
          calories = None\<rparr>"
  by (simp add: show_training_info_def Training_get_distance_def
      Training_get_mean_speed_def Training_get_spent_calories_def truediv_def M_IN_KM_def)

lemma base_main_TypeError: "d \<noteq> 0 \<Longrightarrow> main (Training a d w) = Inl TypeError"
  by (simp add: main_def show_training_info_def Training_get_distance_def
      Training_get_mean_speed_def Training_get_spent_calories_def truediv_def
      get_message_def)

subsection \<open>The dispatcher\<close>

lemma dictionary_cases:
  "dictionary workout_type =
     (if workout_type = ''SWM'' then Some new_Swimming
      else if workout_type = ''RUN'' then Some new_Running
      else if workout_type = ''WLK'' then Some new_SportsWalking
      else None)"
  by (simp add: dictionary_def)

lemma new_Running_no_KeyError: "new_Running data \<noteq> Inl (KeyError m)"
  by (cases data rule: new_Running.cases) simp_all

lemma new_SportsWalking_no_KeyError: "new_SportsWalking data \<noteq> Inl (KeyError m)"
  by (cases data rule: new_SportsWalking.cases) simp_all

lemma new_Swimming_no_KeyError: "new_Swimming data \<noteq> Inl (KeyError m)"
  by (cases data rule: new_Swimming.cases) simp_all

text \<open>
  C2. For a code other than \<open>SWM\<close>, \<open>RUN\<close> and \<open>WLK\<close> and any data list,
  \<open>read_package\<close> fails with a KeyError whose message is the fixed text followed by
  the code itself. For each of the three codes it never fails with a KeyError, whatever
  the data list.
\<close>

theorem read_package_unknown_code:
  "(workout_type \<notin> {''SWM'', ''RUN'', ''WLK''} \<longrightarrow>
      read_package workout_type data = Inl (KeyError (msg_unknown_type @ workout_type)))
   \<and> (workout_type \<in> {''SWM'', ''RUN'', ''WLK''} \<longrightarrow>
      read_package workout_type data \<noteq> Inl (KeyError m))"
  by (simp add: read_package_def dictionary_cases new_Running_no_KeyError
      new_SportsWalking_no_KeyError new_Swimming_no_KeyError)

theorem read_package_unknown_code_witness:
  "''XYZ'' \<notin> {''SWM'', ''RUN'', ''WLK''}
   \<and> read_package ''XYZ'' [720, 1, 80] = Inl (KeyError (msg_unknown_type @ ''XYZ''))
   \<and> ''RUN'' \<in> {''SWM'', ''RUN'', ''WLK''}
   \<and> read_package ''RUN'' [15000, 1, 75] \<noteq> Inl (KeyError (msg_unknown_type @ ''RUN''))"
  using read_package_unknown_code [of "''XYZ''" "[720, 1, 80]"]
    read_package_unknown_code [of "''RUN''" "[15000, 1, 75]" "msg_unknown_type @ ''RUN''"]
  by simp

subsection \<open>Distance\<close>

text \<open>
  C3. For every object of the three concrete classes \<open>get_distance\<close> returns
  \<open>action * step_length / 1000\<close>, with the step length 0.65 for \<open>Running\<close> and
  \<open>SportsWalking\<close> and 1.38 for \<open>Swimming\<close>, whose own override computes it.
\<close>

theorem get_distance_formula:
  "fst (get_distance (Running a d w)) = Inr (a * 0.65 / 1000)
   \<and> fst (get_distance (SportsWalking a d w h)) = Inr (a * 0.65 / 1000)
   \<and> fst (get_distance (Swimming a d w lp cp)) = Inr (a * 1.38 / 1000)
   \<and> get_distance (Swimming a d w lp cp) = Swimming_get_distance (Swimming a d w lp cp)"
  by (simp add: Training_get_distance_def Swimming_get_distance_def M_IN_KM_def)

subsection \<open>Mean speed\<close>

lemma Training_get_mean_speed_of_distance:
  assumes "duration self \<noteq> 0" and "fst (get_distance self) = Inr dst"
  shows "fst (Training_get_mean_speed self) = Inr (dst / duration self)"
proof -
  have "get_distance self = (Inr dst, self)"
    using assms(2) get_distance_frame [of self] by (cases "get_distance self") simp
  then show ?thesis
    using assms(1) by (simp add: Training_get_mean_speed_def truediv_def)
qed

lemma Swimming_get_mean_speed_value:
  "d \<noteq> 0 \<Longrightarrow>
   get_mean_speed (Swimming a d w lp cp) = (Inr (lp * cp / 1000 / d), Swimming a d w lp cp)"
  by (simp add: Swimming_get_mean_speed_def truediv_def M_IN_KM_def)

text \<open>With a zero duration the division raises, in every class.\<close>

lemma get_mean_speed_zero_duration:
  "duration self = 0 \<Longrightarrow> fst (get_mean_speed self) = Inl ZeroDivisionError"
  by (cases self)
    (simp_all add: Training_get_mean_speed_def Swimming_get_mean_speed_def
      Training_get_distance_def truediv_def)

text \<open>
  C4. With a duration above zero, \<open>get_mean_speed\<close> of a \<open>Running\<close> or a
  \<open>SportsWalking\<close> object returns the value of \<open>get_distance\<close> divided by the
  duration; of a \<open>Swimming\<close> object it returns
  \<open>length_pool * count_pool / 1000 / duration\<close>, the same value for every action.
\<close>

theorem get_mean_speed_formula:
  assumes "0 < d"
  shows "(\<exists>dst. fst (get_distance (Running a d w)) = Inr dst
            \<and> fst (get_mean_speed (Running a d w)) = Inr (dst / d))
       \<and> (\<exists>dst. fst (get_distance (SportsWalking a d w h)) = Inr dst
            \<and> fst (get_mean_speed (SportsWalking a d w h)) = Inr (dst / d))
       \<and> fst (get_mean_speed (Swimming a d w lp cp)) = Inr (lp * cp / 1000 / d)
       \<and> fst (get_mean_speed (Swimming a' d w lp cp)) =
           fst (get_mean_speed (Swimming a d w lp cp))"
proof -
  have nz: "d \<noteq> 0" using assms by simp
  have run: "fst (get_distance (Running a d w)) = Inr (a * 0.65 / 1000)"
    by (simp add: Training_get_distance_def M_IN_KM_def)
  have "fst (get_mean_speed (Running a d w)) = Inr (a * 0.65 / 1000 / d)"
    using Training_get_mean_speed_of_distance [OF _ run] nz by simp
  with run have 1: "\<exists>dst. fst (get_distance (Running a d w)) = Inr dst
      \<and> fst (get_mean_speed (Running a d w)) = Inr (dst / d)"
    by blast
  have wlk: "fst (get_distance (SportsWalking a d w h)) = Inr (a * 0.65 / 1000)"
    by (simp add: Training_get_distance_def M_IN_KM_def)
  have "fst (get_mean_speed (SportsWalking a d w h)) = Inr (a * 0.65 / 1000 / d)"
    using Training_get_mean_speed_of_distance [OF _ wlk] nz by simp
  with wlk have 2: "\<exists>dst. fst (get_distance (SportsWalking a d w h)) = Inr dst
      \<and> fst (get_mean_speed (SportsWalking a d w h)) = Inr (dst / d)"
    by blast
  from 1 2 show ?thesis
    by (simp only: Swimming_get_mean_speed_value [OF nz] fst_conv simp_thms)
qed

theorem get_mean_speed_formula_witness:
  "(0::real) < 1
   \<and> (\<exists>dst. fst (get_distance (Running 15000 1 75)) = Inr dst
            \<and> fst (get_mean_speed (Running 15000 1 75)) = Inr (dst / 1))
   \<and> (\<exists>dst. fst (get_distance (SportsWalking 15000 1 75 180)) = Inr dst
            \<and> fst (get_mean_speed (SportsWalking 15000 1 75 180)) = Inr (dst / 1))
   \<and> fst (get_mean_speed (Swimming 15000 1 75 25 40)) = Inr (25 * 40 / 1000 / 1)
   \<and> fst (get_mean_speed (Swimming 0 1 75 25 40)) =
           fst (get_mean_speed (Swimming 15000 1 75 25 40))"
proof -
  have pos: "(0::real) < 1" by simp
  show ?thesis
    using pos
      get_mean_speed_formula [OF pos, where a = 15000 and w = 75 and h = 180
        and lp = 25 and cp = 40 and a' = 0]
    by blast
qed

subsection \<open>Calories\<close>

text \<open>
  C5. With a duration above zero, \<open>get_spent_calories\<close> of a \<open>Running\<close> object
  returns \<open>(18 * mean_speed + 1.79) * weight / 1000 * duration * 60\<close>, where
  \<open>mean_speed\<close> is what \<open>get_mean_speed\<close> returns.
\<close>

theorem Running_get_spent_calories_formula:
  assumes "0 < d"
  shows "\<exists>mean_speed. fst (get_mean_speed (Running a d w)) = Inr mean_speed
           \<and> fst (get_spent_calories (Running a d w)) =
               Inr (Some ((18 * mean_speed + 1.79) * w / 1000 * d * 60))"
  using assms
  by (simp add: Running_get_spent_calories_def Training_get_mean_speed_def
      Training_get_distance_def truediv_def M_IN_KM_def MIN_IN_H_def
      Running_CALORIES_MEAN_SPEED_MULTIPLIER_def Running_CALORIES_MEAN_SPEED_SHIFT_def)

theorem Running_get_spent_calories_formula_witness:
  "(0::real) < 1
   \<and> (\<exists>mean_speed. fst (get_mean_speed (Running 15000 1 75)) = Inr mean_speed
           \<and> fst (get_spent_calories (Running 15000 1 75)) =
               Inr (Some ((18 * mean_speed + 1.79) * 75 / 1000 * 1 * 60)))"
proof -
  have pos: "(0::real) < 1" by simp
  show ?thesis
    using pos Running_get_spent_calories_formula [OF pos, of 15000 75] by blast
qed

text \<open>
  What \<open>SportsWalking.get_spent_calories\<close> does with a non-zero duration, by cases:
  the OverflowError of the square, the ZeroDivisionError of the quotient, the value.
\<close>

lemma float_underflow_pos: "0 < float_underflow"
  by (simp add: float_underflow_def)

lemma SportsWalking_get_spent_calories_cases:
  assumes "d \<noteq> 0"
  shows "fst (SportsWalking_get_spent_calories (SportsWalking a d w h)) =
          (let mean_speed = a * 0.65 / 1000 / d
           in if \<not> is_infinite mean_speed \<and> is_infinite ((mean_speed * 0.278)\<^sup>2)
              then Inl OverflowError
              else if \<bar>h / 100\<bar> \<le> float_underflow then Inl ZeroDivisionError
              else Inr (Some ((0.035 * w
                               + ((mean_speed * 0.278)\<^sup>2 / (h / 100)) * 0.029 * w)
                              * d * 60)))"
proof -
  define ms where "ms = a * 0.65 / 1000 / d"
  have speed: "get_mean_speed (SportsWalking a d w h) = (Inr ms, SportsWalking a d w h)"
    using assms
    by (simp add: ms_def Training_get_mean_speed_def Training_get_distance_def truediv_def
        M_IN_KM_def)
  have zero: "flush (h / 100) = 0 \<longleftrightarrow> \<bar>h / 100\<bar> \<le> float_underflow"
    using float_underflow_pos by (auto simp add: flush_def)
  have same: "\<not> \<bar>h / 100\<bar> \<le> float_underflow \<Longrightarrow> flush (h / 100) = h / 100"
    by (simp add: flush_def)
  have unfolded: "fst (SportsWalking_get_spent_calories (SportsWalking a d w h)) =
      (case pow2 (is_infinite ms) (ms * 0.278) of
         Inl e \<Rightarrow> Inl e
       | Inr square \<Rightarrow>
           (case truediv square (flush (h / 100)) of
              Inl e \<Rightarrow> Inl e
            | Inr q \<Rightarrow> Inr (Some ((0.035 * w + q * 0.029 * w) * d * 60))))"
    unfolding SportsWalking_get_spent_calories_def speed Let_def
    by (simp add: MIN_IN_H_def CM_IN_M_def KMH_IN_MSEC_def
        SportsWalking_CALORIES_WEIGHT_MULTIPLIER_def
        SportsWalking_CALORIES_SPEED_HEIGHT_MULTIPLIER_def split: sum.split)
  show ?thesis
  proof (cases "\<bar>h / 100\<bar> \<le> float_underflow")
    case True
    then have fl: "flush (h / 100) = 0" using zero by simp
    show ?thesis
      unfolding unfolded fl Let_def ms_def [symmetric]
      using True by (simp add: truediv_def pow2_def)
  next
    case False
    have fl: "flush (h / 100) = h / 100"
      using same [OF False] .
    have nz: "h / 100 \<noteq> 0"
      using False float_underflow_pos by auto
    show ?thesis
      unfolding unfolded fl Let_def ms_def [symmetric] truediv_def pow2_def
      using False nz
      by (cases "is_infinite ms"; cases "is_infinite ((ms * 0.278)\<^sup>2)")
        (simp_all only: if_False if_True simp_thms sum.case)
  qed
qed




text \<open>
  A speed that is itself infinite raises nothing: with the action \<open>10^308\<close> and the
  duration \<open>1 / 10^10\<close> the call returns.
\<close>

lemma SportsWalking_infinite_speed:
  "fst (get_spent_calories (SportsWalking (10 ^ 308) (1 / 10 ^ 10) 75 180)) =
     Inr (Some ((0.035 * 75
                 + ((10 ^ 308 * 0.65 / 1000 / (1 / 10 ^ 10) * 0.278)\<^sup>2 / (180 / 100))
                   * 0.029 * 75)
                * (1 / 10 ^ 10) * 60))"
proof -
  have nz: "(1 / 10 ^ 10 :: real) \<noteq> 0" by simp
  have inf: "is_infinite (10 ^ 308 * 0.65 / 1000 / (1 / 10 ^ 10))"
    by (simp add: is_infinite_def float_overflow_def)
  have no_underflow: "\<not> \<bar>180 / 100 :: real\<bar> \<le> float_underflow"
    by (simp add: float_underflow_def)
  show ?thesis
    unfolding get_spent_calories.simps SportsWalking_get_spent_calories_cases [OF nz] Let_def
    using inf no_underflow by (simp only: simp_thms if_False)
qed

text \<open>A height of zero makes the divisor zero: the call raises.\<close>

lemma SportsWalking_zero_height:
  assumes "d \<noteq> 0" and "(a * 0.65 / 1000 / d * 0.278)\<^sup>2 < float_overflow"
  shows "fst (get_spent_calories (SportsWalking a d w 0)) = Inl ZeroDivisionError"
proof -
  have no_overflow: "\<not> is_infinite ((a * 0.65 / 1000 / d * 0.278)\<^sup>2)"
    using assms(2) by (simp add: is_infinite_def)
  have underflow: "\<bar>0 / 100 :: real\<bar> \<le> float_underflow"
    using float_underflow_pos by simp
  show ?thesis
    unfolding get_spent_calories.simps SportsWalking_get_spent_calories_cases [OF assms(1)]
      Let_def
    using no_overflow underflow by (simp only: simp_thms if_False if_True)
qed

text \<open>
  C7. With a duration above zero, \<open>get_spent_calories\<close> of a \<open>Swimming\<close> object
  returns \<open>(mean_speed + 1.1) * 2 * weight * duration\<close>, where \<open>mean_speed\<close> is
  what \<open>get_mean_speed\<close> returns: the coefficient 2 multiplies.
\<close>

theorem Swimming_get_spent_calories_formula:
  assumes "0 < d"
  shows "\<exists>mean_speed. fst (get_mean_speed (Swimming a d w lp cp)) = Inr mean_speed
           \<and> fst (get_spent_calories (Swimming a d w lp cp)) =
               Inr (Some ((mean_speed + 1.1) * 2 * w * d))"
  using assms
  by (simp add: Swimming_get_spent_calories_def Swimming_get_mean_speed_def
      truediv_def M_IN_KM_def Swimming_CALORIES_MEAN_SPEED_SHIFT_def
      Swimming_CALORIES_WEIGHT_MULTIPLIER_def)

theorem Swimming_get_spent_calories_formula_witness:
  "(0::real) < 1
   \<and> (\<exists>mean_speed. fst (get_mean_speed (Swimming 720 1 80 25 40)) = Inr mean_speed
           \<and> fst (get_spent_calories (Swimming 720 1 80 25 40)) =
               Inr (Some ((mean_speed + 1.1) * 2 * 80 * 1)))"
proof -
  have pos: "(0::real) < 1" by simp
  show ?thesis
    using pos Swimming_get_spent_calories_formula [OF pos, of 720 80 25 40] by blast
qed

subsection \<open>A swimming session from the sensor data to the summary\<close>

text \<open>
  C8. \<open>read_package\<close> on the code \<open>SWM\<close> and the data 720, 1, 80, 25, 40 builds a
  \<open>Swimming\<close> object, and its summary has the distance \<open>720 * 1.38 / 1000\<close>, the
  speed 1 and the calories 336.
\<close>

theorem swimming_end_to_end:
  "read_package ''SWM'' [720, 1, 80, 25, 40] = Inr (Swimming 720 1 80 25 40)
   \<and> fst (show_training_info (Swimming 720 1 80 25 40)) =
       Inr \<lparr>training_type = ''Swimming'', msg_duration = Finite 1,
            distance = Finite (720 * 1.38 / 1000), speed = Finite (25 * 40 / 1000 / 1),
            calories = Some (Finite ((1.0 + 1.1) * 2 * 80 * 1))\<rparr>
   \<and> (25 * 40 / 1000 / 1 :: real) = 1
   \<and> ((1.0 + 1.1) * 2 * 80 * 1 :: real) = 336"
  by (simp add: read_package_def dictionary_def show_training_info_def
      Swimming_get_distance_def Swimming_get_mean_speed_def Swimming_get_spent_calories_def
      truediv_def M_IN_KM_def Swimming_CALORIES_MEAN_SPEED_SHIFT_def
      Swimming_CALORIES_WEIGHT_MULTIPLIER_def)

subsection \<open>The report\<close>

lemma decimal_small: "n < 10 \<Longrightarrow> decimal n = [digit_char n]"
  by (subst decimal.simps) simp

lemma decimal_large:
  "\<not> n < 10 \<Longrightarrow> decimal n = decimal (n div 10) @ [digit_char (n mod 10)]"
  by (subst decimal.simps) simp

lemmas format_3f_eval =
  format_3f_def round_half_even_def Let_def decimal_small decimal_large digit_char_def

lemma digit_char_digit: "d < 10 \<Longrightarrow> digit_char d \<in> digits"
  unfolding digit_char_def digits_def by (rule nth_mem) simp

lemma decimal_digits: "set (decimal n) \<subseteq> digits"
proof (induction n rule: decimal.induct)
  case (1 n)
  show ?case
  proof (cases "n < 10")
    case True
    then show ?thesis
      by (simp add: decimal_small digit_char_digit)
  next
    case False
    with "1" show ?thesis
      by (simp add: decimal_large digit_char_digit)
  qed
qed

lemma decimal_not_Nil: "decimal n \<noteq> []"
  by (subst decimal.simps) simp

lemma point_not_digit: "CHR ''.'' \<notin> digits"
  by (simp add: digits_def)

lemma minus_not_digit: "CHR ''-'' \<notin> digits"
  by (simp add: digits_def)

lemma split_at_point:
  assumes "CHR ''.'' \<notin> set p"
  shows "takeWhile (\<lambda>c. c \<noteq> CHR ''.'') (p @ ''.'' @ fr) = p"
    and "dropWhile (\<lambda>c. c \<noteq> CHR ''.'') (p @ ''.'' @ fr) = ''.'' @ fr"
proof -
  have no_point: "\<And>c. c \<in> set p \<Longrightarrow> c \<noteq> CHR ''.''"
    using assms by auto
  show "takeWhile (\<lambda>c. c \<noteq> CHR ''.'') (p @ ''.'' @ fr) = p"
    using no_point by (simp add: takeWhile_append2)
  show "dropWhile (\<lambda>c. c \<noteq> CHR ''.'') (p @ ''.'' @ fr) = ''.'' @ fr"
    using no_point by (simp add: dropWhile_append2)
qed

lemma fixed_3_decimals_unsigned:
  assumes "ds \<noteq> []" and "set ds \<subseteq> digits" and "length fr = 3" and "set fr \<subseteq> digits"
  shows "fixed_3_decimals (ds @ ''.'' @ fr)"
proof -
  have "CHR ''.'' \<notin> set ds"
    using assms(2) point_not_digit by auto
  note split = split_at_point [OF this, of fr]
  have "hd ds \<noteq> CHR ''-''"
    using assms(1,2) minus_not_digit by (cases ds) auto
  then have "take 1 ds \<noteq> ''-''"
    using assms(1) by (cases ds) auto
  then show ?thesis
    unfolding fixed_3_decimals_def split Let_def using assms by simp
qed

lemma fixed_3_decimals_signed:
  assumes "ds \<noteq> []" and "set ds \<subseteq> digits" and "length fr = 3" and "set fr \<subseteq> digits"
  shows "fixed_3_decimals ((CHR ''-'' # ds) @ ''.'' @ fr)"
proof -
  have "CHR ''.'' \<notin> set (CHR ''-'' # ds)"
    using assms(2) point_not_digit by auto
  note split = split_at_point [OF this, of fr]
  show ?thesis
    unfolding fixed_3_decimals_def split Let_def using assms by simp
qed

text \<open>Whatever the number, its rendering has exactly three fractional digits.\<close>

lemma format_3f_fixed: "fixed_3_decimals (format_3f x)"
proof -
  define n where "n = nat (round_half_even (\<bar>x\<bar> * 1000))"
  define fr where
    "fr = [digit_char (n div 100 mod 10), digit_char (n div 10 mod 10), digit_char (n mod 10)]"
  have fr: "length fr = 3" "set fr \<subseteq> digits"
    by (simp_all add: fr_def digit_char_digit)
  have eq: "format_3f x = (if x < 0 then ''-'' else []) @ decimal (n div 1000) @ ''.'' @ fr"
    by (simp add: format_3f_def Let_def n_def fr_def)
  show ?thesis
  proof (cases "x < 0")
    case True
    then show ?thesis
      using fixed_3_decimals_signed [OF decimal_not_Nil decimal_digits fr] eq by simp
  next
    case False
    then show ?thesis
      using fixed_3_decimals_unsigned [OF decimal_not_Nil decimal_digits fr] eq by simp
  qed
qed

lemma digit_value_digit_char: "d < 10 \<Longrightarrow> digit_value (digit_char d) = d"
proof -
  assume "d < 10"
  then have "d = 0 \<or> d = 1 \<or> d = 2 \<or> d = 3 \<or> d = 4 \<or> d = 5 \<or> d = 6 \<or> d = 7 \<or> d = 8 \<or> d = 9"
    by arith
  then show ?thesis
    by (elim disjE) (simp_all add: digit_value_def digit_char_def)
qed

lemma read_digits_snoc: "read_digits (s @ [c]) = 10 * read_digits s + digit_value c"
  by (simp add: read_digits_def)

lemma read_digits_decimal: "read_digits (decimal n) = n"
proof (induction n rule: decimal.induct)
  case (1 n)
  show ?case
  proof (cases "n < 10")
    case True
    then show ?thesis
      by (simp add: decimal_small read_digits_def digit_value_digit_char)
  next
    case False
    with "1" show ?thesis
      by (simp add: decimal_large read_digits_snoc digit_value_digit_char)
  qed
qed

lemma read_digits_3:
  "a < 10 \<Longrightarrow> b < 10 \<Longrightarrow> c < 10 \<Longrightarrow>
   read_digits [digit_char a, digit_char b, digit_char c] = a * 100 + b * 10 + c"
  by (simp add: read_digits_def digit_value_digit_char)

lemma digits_sum:
  "n div 100 mod 10 * 100 + n div 10 mod 10 * 10 + n mod 10 = n mod (1000::nat)"
proof -
  have tens: "n mod 100 = 10 * (n div 10 mod 10) + n mod 10"
    using mod_mult2_eq [of n 10 10] by simp
  have hundreds: "n mod 1000 = 100 * (n div 100 mod 10) + n mod 100"
    using mod_mult2_eq [of n 100 10] by simp
  show ?thesis
    unfolding hundreds tens by simp
qed

lemma read_digits_fraction:
  "read_digits [digit_char (n div 100 mod 10), digit_char (n div 10 mod 10),
                digit_char (n mod 10)] = n mod 1000"
proof -
  have "n div 100 mod 10 < 10" "n div 10 mod 10 < 10" "n mod 10 < 10"
    by simp_all
  then show ?thesis
    by (simp only: read_digits_3 digits_sum)
qed

lemma thousandths: "real (n div 1000) + real (n mod 1000) / 1000 = real n / 1000"
proof -
  have "real (1000 * (n div 1000) + n mod 1000) = real n"
    by simp
  then have split: "real n = 1000 * real (n div 1000) + real (n mod 1000)"
    by (simp only: of_nat_add of_nat_mult of_nat_numeral)
  show ?thesis
    unfolding split by (simp add: add_divide_distrib)
qed

lemma decimal_value_unsigned:
  assumes "length fr = 3"
  shows "decimal_value (decimal k @ ''.'' @ fr) = real k + real (read_digits fr) / 1000"
proof -
  have "CHR ''.'' \<notin> set (decimal k)"
    using decimal_digits [of k] point_not_digit by auto
  note split = split_at_point [OF this, of fr]
  have "hd (decimal k) \<noteq> CHR ''-''"
    using decimal_digits [of k] decimal_not_Nil [of k] minus_not_digit
    by (cases "decimal k") auto
  then have "take 1 (decimal k) \<noteq> ''-''"
    using decimal_not_Nil [of k] by (cases "decimal k") auto
  then show ?thesis
    unfolding decimal_value_def split Let_def
    using assms by (simp add: read_digits_decimal)
qed

lemma decimal_value_signed:
  assumes "length fr = 3"
  shows "decimal_value ((CHR ''-'' # decimal k) @ ''.'' @ fr) =
           - (real k + real (read_digits fr) / 1000)"
proof -
  have "CHR ''.'' \<notin> set (CHR ''-'' # decimal k)"
    using decimal_digits [of k] point_not_digit by auto
  note split = split_at_point [OF this, of fr]
  show ?thesis
    unfolding decimal_value_def split Let_def
    using assms by (simp add: read_digits_decimal)
qed

lemma round_half_even_near: "\<bar>of_int (round_half_even y) - y\<bar> \<le> 1 / 2"
proof -
  have "of_int \<lfloor>y\<rfloor> \<le> y" and "y < of_int \<lfloor>y\<rfloor> + 1"
    by linarith+
  then show ?thesis
    unfolding round_half_even_def Let_def by (auto split: if_splits)
qed

lemma round_half_even_nonneg: "0 \<le> y \<Longrightarrow> 0 \<le> round_half_even y"
proof -
  assume "0 \<le> y"
  then have "0 \<le> \<lfloor>y\<rfloor>" by simp
  then show ?thesis
    unfolding round_half_even_def Let_def by (auto split: if_splits)
qed

text \<open>The rendering of a number denotes the thousandth nearest to it.\<close>

lemma format_3f_value: "\<bar>decimal_value (format_3f x) - x\<bar> \<le> 1 / 2000"
proof -
  define n where "n = nat (round_half_even (\<bar>x\<bar> * 1000))"
  define fr where
    "fr = [digit_char (n div 100 mod 10), digit_char (n div 10 mod 10), digit_char (n mod 10)]"
  have fr: "length fr = 3" by (simp add: fr_def)
  have digits: "real (read_digits fr) = real (n mod 1000)"
    unfolding fr_def by (simp only: read_digits_fraction)
  have eq: "format_3f x = (if x < 0 then ''-'' else []) @ decimal (n div 1000) @ ''.'' @ fr"
    by (simp add: format_3f_def Let_def n_def fr_def)
  have "0 \<le> round_half_even (\<bar>x\<bar> * 1000)"
    by (rule round_half_even_nonneg) simp
  then have "real n = of_int (round_half_even (\<bar>x\<bar> * 1000))"
    by (simp add: n_def)
  then have "\<bar>real n - \<bar>x\<bar> * 1000\<bar> \<le> 1 / 2"
    using round_half_even_near [of "\<bar>x\<bar> * 1000"] by simp
  then have near: "\<bar>real n / 1000 - \<bar>x\<bar>\<bar> \<le> 1 / 2000"
    by (simp add: field_simps abs_le_iff)
  show ?thesis
  proof (cases "x < 0")
    case True
    then have "decimal_value (format_3f x) = - (real n / 1000)"
      using decimal_value_signed [OF fr, of "n div 1000"] eq digits
      by (simp add: thousandths)
    then show ?thesis
      using near True by linarith
  next
    case False
    then have "decimal_value (format_3f x) = real n / 1000"
      using decimal_value_unsigned [OF fr, of "n div 1000"] eq digits
      by (simp add: thousandths)
    then show ?thesis
      using near False by linarith
  qed
qed

text \<open>Every finite float is rendered with three fractional digits.\<close>

lemma format_float_renders: "is_finite v \<Longrightarrow> renders_3f v (format_float v)"
proof (cases v)
  case (Finite x)
  then show ?thesis
    using format_3f_fixed [of x] format_3f_value [of x]
    by (simp only: renders_3f_def format_float.simps float_value.simps simp_thms)
next
  case NegZero
  then show ?thesis
    by (simp add: renders_3f_def fixed_3_decimals_def digits_def decimal_value_def
        read_digits_def digit_value_def)
qed simp_all

text \<open>An infinity and NaN are rendered without fractional digits.\<close>

lemma format_float_not_finite:
  "\<not> fixed_3_decimals (format_float PosInf)"
  "\<not> fixed_3_decimals (format_float NegInf)"
  "\<not> fixed_3_decimals (format_float NaN)"
  by (simp_all add: fixed_3_decimals_def)

text \<open>Rounding is to the nearest thousandth, ties to even; the sign is the value's.\<close>

lemma format_3f_examples:
  "format_3f 1 = ''1.000''"
  "format_3f 12345.6789 = ''12345.679''"
  "format_3f 0.0625 = ''0.062''"
  "format_3f 0.1875 = ''0.188''"
  "format_3f (- 0.0001) = ''-0.000''"
  by (simp_all add: format_3f_eval)

text \<open>
  C9 as stated fails on two kinds of summary. The summary that \<open>show_training_info\<close>
  builds for a base-class object has no calories, and rendering it raises TypeError.
  The summary that Python builds for \<open>Running(1e308, 1e-10, 75)\<close> has an infinite
  speed and infinite calories, which are rendered \<open>inf\<close>, without fractional digits.
\<close>

theorem get_message_not_every_record:
  "get_message \<lparr>training_type = ''Training'', msg_duration = Finite 1,
                distance = Finite (9000 * 0.65 / 1000),
                speed = Finite (9000 * 0.65 / 1000 / 1), calories = None\<rparr> = Inl TypeError
   \<and> get_message \<lparr>training_type = ''Running'', msg_duration = Finite (1 / 10 ^ 10),
                  distance = Finite (10 ^ 308 * 0.65 / 1000),
                  speed = PosInf, calories = Some PosInf\<rparr> =
       Inr (msg_type @ ''Running''
            @ msg_duration_part @ format_float (Finite (1 / 10 ^ 10))
            @ msg_distance_part @ format_float (Finite (10 ^ 308 * 0.65 / 1000))
            @ msg_speed_part @ ''inf''
            @ msg_calories_part @ ''inf''
            @ msg_end)
   \<and> \<not> fixed_3_decimals ''inf''"
  by (simp add: get_message_def fixed_3_decimals_def)

text \<open>
  C9, as the code has it. For every summary whose four numeric fields are finite floats
  (the calories are not \<open>None\<close>, and no field is an infinity or NaN), \<open>get_message\<close>
  returns the fixed text with the label and the four numbers in their places. Each
  number is rendered with exactly three fractional digits, whatever its magnitude, and
  the rendering denotes the thousandth nearest to the number; 1 is rendered \<open>1.000\<close>.
  The fixed text is written out in UTF-8 bytes.
\<close>

theorem get_message_format:
  assumes "is_finite (msg_duration m)" and "is_finite (distance m)"
    and "is_finite (speed m)" and "calories m = Some c" and "is_finite c"
  shows "get_message m =
           Inr (map char_of
                  [0xD0, 0xA2, 0xD0, 0xB8, 0xD0, 0xBF, 0x20, 0xD1, 0x82, 0xD1, 0x80, 0xD0,
                   0xB5, 0xD0, 0xBD, 0xD0, 0xB8, 0xD1, 0x80, 0xD0, 0xBE, 0xD0, 0xB2, 0xD0,
                   0xBA, 0xD0, 0xB8, 0x3A, 0x20 :: nat]
                @ training_type m
                @ map char_of
                  [0x3B, 0x20, 0xD0, 0x94, 0xD0, 0xBB, 0xD0, 0xB8, 0xD1, 0x82, 0xD0, 0xB5,
                   0xD0, 0xBB, 0xD1, 0x8C, 0xD0, 0xBD, 0xD0, 0xBE, 0xD1, 0x81, 0xD1, 0x82,
                   0xD1, 0x8C, 0x3A, 0x20 :: nat]
                @ format_float (msg_duration m)
                @ map char_of
                  [0x20, 0xD1, 0x87, 0x2E, 0x3B, 0x20, 0xD0, 0x94, 0xD0, 0xB8, 0xD1, 0x81,
                   0xD1, 0x82, 0xD0, 0xB0, 0xD0, 0xBD, 0xD1, 0x86, 0xD0, 0xB8, 0xD1, 0x8F,
                   0x3A, 0x20 :: nat]
                @ format_float (distance m)
                @ map char_of
                  [0x20, 0xD0, 0xBA, 0xD0, 0xBC, 0x3B, 0x20, 0xD0, 0xA1, 0xD1, 0x80, 0x2E,
                   0x20, 0xD1, 0x81, 0xD0, 0xBA, 0xD0, 0xBE, 0xD1, 0x80, 0xD0, 0xBE, 0xD1,
                   0x81, 0xD1, 0x82, 0xD1, 0x8C, 0x3A, 0x20 :: nat]
                @ format_float (speed m)
                @ map char_of
                  [0x20, 0xD0, 0xBA, 0xD0, 0xBC, 0x2F, 0xD1, 0x87, 0x3B, 0x20, 0xD0, 0x9F,
                   0xD0, 0xBE, 0xD1, 0x82, 0xD1, 0x80, 0xD0, 0xB0, 0xD1, 0x87, 0xD0, 0xB5,
                   0xD0, 0xBD, 0xD0, 0xBE, 0x20, 0xD0, 0xBA, 0xD0, 0xBA, 0xD0, 0xB0, 0xD0,
                   0xBB, 0x3A, 0x20 :: nat]
                @ format_float c
                @ ''.'')
         \<and> renders_3f (msg_duration m) (format_float (msg_duration m))
         \<and> renders_3f (distance m) (format_float (distance m))
         \<and> renders_3f (speed m) (format_float (speed m))
         \<and> renders_3f c (format_float c)
         \<and> format_float (Finite 1) = ''1.000''"
proof -
  have rendered: "get_message m =
      Inr (msg_type @ training_type m
           @ msg_duration_part @ format_float (msg_duration m)
           @ msg_distance_part @ format_float (distance m)
           @ msg_speed_part @ format_float (speed m)
           @ msg_calories_part @ format_float c
           @ msg_end)"
    using assms(4) by (simp add: get_message_def)
  have one: "format_float (Finite 1) = ''1.000''"
    by (simp add: format_3f_examples)
  show ?thesis
    unfolding rendered msg_type_def msg_duration_part_def msg_distance_part_def
      msg_speed_part_def msg_calories_part_def msg_end_def
    using format_float_renders [OF assms(1)] format_float_renders [OF assms(2)]
      format_float_renders [OF assms(3)] format_float_renders [OF assms(5)] one
    by (simp only: simp_thms)
qed

theorem get_message_format_witness:
  "is_finite (Finite 1) \<and> is_finite (Finite (720 * 1.38 / 1000)) \<and> is_finite (Finite 336)
   \<and> get_message \<lparr>training_type = ''Swimming'', msg_duration = Finite 1,
                  distance = Finite (720 * 1.38 / 1000), speed = Finite 1,
                  calories = Some (Finite 336)\<rparr> =
       Inr (msg_type @ ''Swimming''
            @ msg_duration_part @ ''1.000''
            @ msg_distance_part @ ''0.994''
            @ msg_speed_part @ ''1.000''
            @ msg_calories_part @ ''336.000''
            @ msg_end)
   \<and> renders_3f (Finite 1) ''1.000''
   \<and> renders_3f (Finite (720 * 1.38 / 1000)) ''0.994''
   \<and> renders_3f (Finite 336) ''336.000''"
proof -
  let ?m = "\<lparr>training_type = ''Swimming'', msg_duration = Finite 1,
             distance = Finite (720 * 1.38 / 1000), speed = Finite 1,
             calories = Some (Finite 336)\<rparr>"
  have f1: "is_finite (msg_duration ?m)" and f2: "is_finite (distance ?m)"
    and f3: "is_finite (speed ?m)" and c: "calories ?m = Some (Finite 336)"
    and f4: "is_finite (Finite 336)"
    by simp_all
  have r1: "format_float (Finite 1) = ''1.000''"
    by (simp add: format_3f_eval)
  have r2: "format_float (Finite (720 * 1.38 / 1000)) = ''0.994''"
    by (simp add: format_3f_eval)
  have r3: "format_float (Finite 336) = ''336.000''"
    by (simp add: format_3f_eval)
  have fields: "msg_duration ?m = Finite 1" "distance ?m = Finite (720 * 1.38 / 1000)"
    "speed ?m = Finite 1" "training_type ?m = ''Swimming''"
    by simp_all
  show ?thesis
    using get_message_format [OF f1 f2 f3 c f4]
    unfolding fields r1 r2 r3 msg_type_def msg_duration_part_def msg_distance_part_def
      msg_speed_part_def msg_calories_part_def msg_end_def
    by (simp only: is_finite.simps simp_thms)
qed

text \<open>A summary without calories cannot be rendered.\<close>

lemma get_message_None: "calories m = None \<Longrightarrow> get_message m = Inl TypeError"
  by (simp add: get_message_def)

text \<open>The line that \<open>main\<close> prints for the swimming session of the module.\<close>

lemma main_swimming:
  "main (Swimming 720 1 80 25 40) =
     Inr (msg_type @ ''Swimming''
          @ msg_duration_part @ ''1.000''
          @ msg_distance_part @ ''0.994''
          @ msg_speed_part @ ''1.000''
          @ msg_calories_part @ ''336.000''
          @ msg_end)"
  by (simp add: main_def show_training_info_def get_message_def
      Swimming_get_distance_def Swimming_get_mean_speed_def Swimming_get_spent_calories_def
      truediv_def M_IN_KM_def Swimming_CALORIES_MEAN_SPEED_SHIFT_def
      Swimming_CALORIES_WEIGHT_MULTIPLIER_def format_3f_eval)

end
